theory Spec2Isabelle
  imports Complex_Main
begin

section \<open>Python values, exceptions and callables\<close>

text \<open>
  The notebook \<^verbatim>\<open>memory_management.ipynb\<close> drives a self-healing loop over a pydantic
  \<^verbatim>\<open>State\<close>. Its fields are typed \<^verbatim>\<open>list\<close>, \<^verbatim>\<open>str\<close>, \<^verbatim>\<open>bool\<close> and \<^verbatim>\<open>Callable\<close>;
  the values that flow through them are the arguments of the target function, the text
  returned by the language model, and whatever \<^verbatim>\<open>json.loads\<close> makes of such a text.
  Python floats are kept apart from integers, with their three non-finite values.
\<close>

datatype pyfloat = Finite rat | PosInf | NegInf | NaN

datatype pyval =
    PNone
  | PBool bool
  | PInt int
  | PFloat pyfloat
  | PStr string
  | PList "pyval list"
  | PDict "(string \<times> pyval) list"

text \<open>
  An exception is its class and the text \<^verbatim>\<open>str(e)\<close>. \<open>NonException\<close> stands for the
  classes that derive from \<^verbatim>\<open>BaseException\<close> only (\<^verbatim>\<open>SystemExit\<close>,
  \<^verbatim>\<open>KeyboardInterrupt\<close>): a clause \<^verbatim>\<open>except Exception\<close> does not catch them.
\<close>

datatype exc_class =
    ZeroDivisionError
  | TypeError
  | IndexError
  | KeyError
  | AttributeError
  | JSONDecodeError
  | SyntaxError
  | OSError
  | UnboundLocalError
  | ValidationError
  | GraphRecursionError
  | OtherException string
  | NonException string

datatype pyexc = PyExc exc_class string

fun exc_str :: "pyexc \<Rightarrow> string" where
  "exc_str (PyExc c msg) = msg"

fun is_Exception :: "pyexc \<Rightarrow> bool" where
  "is_Exception (PyExc (NonException name) msg) = False"
| "is_Exception (PyExc c msg) = True"

text \<open>
  A callable object: its \<^verbatim>\<open>__name__\<close>, what \<^verbatim>\<open>inspect.getsource\<close> gives for it, and
  what a call with a list of positional arguments does (\<open>Inl\<close> is a raised exception).
  The target function is taken to be a function of its arguments alone: a call
  with the same arguments ends the same way each time. An object that
  is not callable is a \<open>pyfunc\<close> whose every call raises \<^verbatim>\<open>TypeError\<close>.
\<close>

record pyfunc =
  fname :: string
  getsource :: "pyexc + string"
  call :: "pyval list \<Rightarrow> pyexc + pyval"

text \<open>Truth value of an object, as \<^verbatim>\<open>if obj:\<close> tests it.\<close>

fun truthy :: "pyval \<Rightarrow> bool" where
  "truthy PNone = False"
| "truthy (PBool b) = b"
| "truthy (PInt i) = (i \<noteq> 0)"
| "truthy (PFloat f) = (f \<noteq> Finite 0)"
| "truthy (PStr s) = (s \<noteq> [])"
| "truthy (PList xs) = (xs \<noteq> [])"
| "truthy (PDict kvs) = (kvs \<noteq> [])"

text \<open>The name of an object's type, and a text between single quotes, as messages show them.\<close>

fun type_name :: "pyval \<Rightarrow> string" where
  "type_name PNone = ''NoneType''"
| "type_name (PBool b) = ''bool''"
| "type_name (PInt i) = ''int''"
| "type_name (PFloat f) = ''float''"
| "type_name (PStr s) = ''str''"
| "type_name (PList xs) = ''list''"
| "type_name (PDict kvs) = ''dict''"

definition quoted :: "string \<Rightarrow> string" where
  "quoted s = CHR 0x27 # s @ [CHR 0x27]"

text \<open>
  \<^verbatim>\<open>obj.pop(0)\<close>: on a list it removes and returns the first element; on a dict decoded
  from JSON (string keys only) the key \<^verbatim>\<open>0\<close> is missing; every other JSON value has
  no attribute \<^verbatim>\<open>pop\<close>.
\<close>

fun py_pop0 :: "pyval \<Rightarrow> pyexc + (pyval \<times> pyval)" where
  "py_pop0 (PList []) = Inl (PyExc IndexError ''pop from empty list'')"
| "py_pop0 (PList (x # xs)) = Inr (x, PList xs)"
| "py_pop0 (PDict kvs) = Inl (PyExc KeyError ''0'')"
| "py_pop0 v =
     Inl (PyExc AttributeError
            (quoted (type_name v) @ '' object has no attribute '' @ quoted ''pop''))"

text \<open>
  The position that \<^verbatim>\<open>xs[idx]\<close> addresses in a list of length \<open>n\<close>: an integer (or a
  bool, which is an integer) counts from the end when negative, and is an
  \<^verbatim>\<open>IndexError\<close> outside \<open>[-n, n)\<close>; any other value is a \<^verbatim>\<open>TypeError\<close>. The message
  of the \<^verbatim>\<open>IndexError\<close> is another one for an integer that does not fit the machine's
  index type (a list has fewer than \<open>2^63\<close> elements).
\<close>

definition out_of_range :: "int \<Rightarrow> pyexc" where
  "out_of_range i =
     (if i < - (2 ^ 63) \<or> 2 ^ 63 \<le> i
      then PyExc IndexError (''cannot fit '' @ quoted ''int'' @ '' into an index-sized integer'')
      else PyExc IndexError ''list index out of range'')"

definition int_position :: "nat \<Rightarrow> int \<Rightarrow> pyexc + nat" where
  "int_position n i =
     (if 0 \<le> i \<and> i < int n then Inr (nat i)
      else if - int n \<le> i \<and> i < 0 then Inr (nat (int n + i))
      else Inl (out_of_range i))"

fun list_position :: "nat \<Rightarrow> pyval \<Rightarrow> pyexc + nat" where
  "list_position n (PInt i) = int_position n i"
| "list_position n (PBool b) = int_position n (if b then 1 else 0)"
| "list_position n v =
     Inl (PyExc TypeError (''list indices must be integers or slices, not '' @ type_name v))"

section \<open>The agent state\<close>

text \<open>
  \<^verbatim>\<open>class State(BaseModel)\<close>. The field \<^verbatim>\<open>function\<close> is \<open>function_ref\<close> here, since
  \<^verbatim>\<open>function\<close> is a keyword of the theory language. pydantic checks the declared types
  when the object is built, not on assignment, so \<open>memory_indexes_to_update\<close> holds
  whatever value \<^verbatim>\<open>memory_search_node\<close> assigns to it.
\<close>

record State =
  function_ref :: pyfunc
  function_string :: string
  arguments :: "pyval list"
  error :: bool
  error_description :: string
  new_function_string :: string
  bug_report :: string
  memories :: "pyval list"
  memory_indexes_to_update :: pyval

section \<open>External services\<close>

text \<open>
  Each prompt is a fixed template filled with fields of the state; a prompt is
  represented by its template and the values filled in.
\<close>

datatype prompt =
    UpdateCodePrompt string string
  | BugReportPrompt string string
  | MemorySearchPrompt string "pyval list"
  | MemoryGenerationPrompt string
  | MemoryModificationPrompt string pyval

text \<open>
  What a node consults outside the state: \<open>llm p\<close> is
  \<^verbatim>\<open>llm.invoke([message]).content.strip()\<close> for the prompt \<open>p\<close>, \<open>json_loads\<close> is
  \<^verbatim>\<open>json.loads\<close>, and \<open>py_exec code\<close> is the namespace that \<^verbatim>\<open>exec(code, namespace)\<close>
  leaves behind when started on an empty one. Each of them may raise.
\<close>

record services =
  llm :: "prompt \<Rightarrow> pyexc + string"
  json_loads :: "string \<Rightarrow> pyexc + pyval"
  py_exec :: "string \<Rightarrow> pyexc + (string \<rightharpoonup> pyfunc)"

section \<open>Code healing nodes\<close>

text \<open>
  \<^verbatim>\<open>run_code\<close>: the call is inside \<^verbatim>\<open>try\<close>; a caught exception sets the flag and the
  description, a normal return changes nothing.
\<close>

definition run_code :: "State \<Rightarrow> pyexc + State" where
  "run_code state =
     (case call (function_ref state) (arguments state) of
        Inr result \<Rightarrow> Inr state
      | Inl e \<Rightarrow>
          if is_Exception e
          then Inr (state\<lparr>error := True, error_description := exc_str e\<rparr>)
          else Inl e)"

definition update_code :: "services \<Rightarrow> State \<Rightarrow> pyexc + State" where
  "update_code sv state =
     (case llm sv (UpdateCodePrompt (function_string state) (error_description state)) of
        Inl e \<Rightarrow> Inl e
      | Inr new_function_string' \<Rightarrow>
          Inr (state\<lparr>new_function_string := new_function_string'\<rparr>))"

text \<open>
  \<^verbatim>\<open>fix_code\<close>: the whole body is inside \<^verbatim>\<open>try\<close>. The name looked up in the namespace
  is the literal \<^verbatim>\<open>'divide_two_numbers'\<close>; a missing key is a \<^verbatim>\<open>KeyError\<close>, caught like
  any exception of \<^verbatim>\<open>exec\<close>.
\<close>

definition fix_code :: "services \<Rightarrow> State \<Rightarrow> pyexc + State" where
  "fix_code sv state =
     (let new_code = new_function_string state in
      case py_exec sv new_code of
        Inl e \<Rightarrow> if is_Exception e then Inr state else Inl e
      | Inr namespace \<Rightarrow>
          (case namespace ''divide_two_numbers'' of
             None \<Rightarrow> Inr state
           | Some new_divide \<Rightarrow>
               Inr (state\<lparr>function_ref := new_divide, error := False\<rparr>)))"

section \<open>Bug reporting nodes\<close>

definition bug_report_node :: "services \<Rightarrow> State \<Rightarrow> pyexc + State" where
  "bug_report_node sv state =
     (case llm sv (BugReportPrompt (function_string state) (error_description state)) of
        Inl e \<Rightarrow> Inl e
      | Inr bug_report' \<Rightarrow> Inr (state\<lparr>bug_report := bug_report'\<rparr>))"

definition memory_search_node :: "services \<Rightarrow> State \<Rightarrow> pyexc + State" where
  "memory_search_node sv state =
     (case llm sv (MemorySearchPrompt (bug_report state) (memories state)) of
        Inl e \<Rightarrow> Inl e
      | Inr response \<Rightarrow>
          (case json_loads sv response of
             Inl e \<Rightarrow> Inl e
           | Inr memory_indexes_to_update' \<Rightarrow>
               Inr (state\<lparr>memory_indexes_to_update := memory_indexes_to_update'\<rparr>)))"

definition memory_generation_node :: "services \<Rightarrow> State \<Rightarrow> pyexc + State" where
  "memory_generation_node sv state =
     (case llm sv (MemoryGenerationPrompt (bug_report state)) of
        Inl e \<Rightarrow> Inl e
      | Inr response \<Rightarrow> Inr (state\<lparr>memories := memories state @ [PStr response]\<rparr>))"

text \<open>
  \<^verbatim>\<open>memory_modification_node\<close>: \<^verbatim>\<open>pop(0)\<close>, then the read \<^verbatim>\<open>state.memories[index]\<close>,
  then the model call, then the write at the same index. Nothing is caught.
\<close>

definition memory_modification_node :: "services \<Rightarrow> State \<Rightarrow> pyexc + State" where
  "memory_modification_node sv state =
     (case py_pop0 (memory_indexes_to_update state) of
        Inl e \<Rightarrow> Inl e
      | Inr (memory_to_update_index, rest) \<Rightarrow>
          (case list_position (length (memories state)) memory_to_update_index of
             Inl e \<Rightarrow> Inl e
           | Inr pos \<Rightarrow>
               (let memory_to_update = memories state ! pos in
                case llm sv (MemoryModificationPrompt (bug_report state) memory_to_update) of
                  Inl e \<Rightarrow> Inl e
                | Inr response \<Rightarrow>
                    Inr (state\<lparr>memory_indexes_to_update := rest,
                               memories := (memories state)[pos := PStr response]\<rparr>))))"

section \<open>Edge functions and the graph\<close>

datatype node =
    Run_code
  | Update_code
  | Fix_code
  | Bug_report_node
  | Memory_search_node
  | Memory_modification_node
  | Memory_generation_node

datatype target = Goto node | END

definition error_router :: "State \<Rightarrow> target" where
  "error_router state = (if error state then Goto Bug_report_node else END)"

definition modification_router :: "State \<Rightarrow> target" where
  "modification_router state =
     (if truthy (memory_indexes_to_update state)
      then Goto Memory_modification_node else Goto Memory_generation_node)"

definition update_memory :: "State \<Rightarrow> target" where
  "update_memory state =
     (if truthy (memory_indexes_to_update state)
      then Goto Memory_modification_node else Goto Update_code)"

text \<open>The node table of \<^verbatim>\<open>builder.add_node\<close>.\<close>

fun node_fn :: "services \<Rightarrow> node \<Rightarrow> State \<Rightarrow> pyexc + State" where
  "node_fn sv Run_code = run_code"
| "node_fn sv Update_code = update_code sv"
| "node_fn sv Fix_code = fix_code sv"
| "node_fn sv Bug_report_node = bug_report_node sv"
| "node_fn sv Memory_search_node = memory_search_node sv"
| "node_fn sv Memory_modification_node = memory_modification_node sv"
| "node_fn sv Memory_generation_node = memory_generation_node sv"

text \<open>The edges of \<^verbatim>\<open>builder.add_edge\<close> and \<^verbatim>\<open>builder.add_conditional_edges\<close>.\<close>

fun successor :: "node \<Rightarrow> State \<Rightarrow> target" where
  "successor Run_code state = error_router state"
| "successor Bug_report_node state = Goto Memory_search_node"
| "successor Memory_search_node state = modification_router state"
| "successor Memory_generation_node state = Goto Update_code"
| "successor Memory_modification_node state = update_memory state"
| "successor Update_code state = Goto Fix_code"
| "successor Fix_code state = Goto Run_code"

text \<open>
  The loop that runs the compiled graph belongs to the graph library, not to the
  notebook. The notebook fixes the entry point, the node table and the edges, and it
  calls \<^verbatim>\<open>graph.stream(state)\<close> with no configuration, so that the library's default
  recursion limit of 25 is in force.

  One turn of the loop: the node runs on the state. From what it returns the library
  builds the \<^verbatim>\<open>State\<close> anew, for the router of the node or for the next node, and
  pydantic checks the declared types again: a pending queue that is not a list ends
  the run with \<^verbatim>\<open>ValidationError\<close>. Then the router attached to the node, or its one
  edge, gives the successor.
\<close>

fun is_list :: "pyval \<Rightarrow> bool" where
  "is_list (PList xs) = True"
| "is_list v = False"

definition validation_error :: pyexc where
  "validation_error = PyExc ValidationError ''1 validation error for State''"

definition graph_step :: "services \<Rightarrow> node \<Rightarrow> State \<Rightarrow> pyexc + (State \<times> target)" where
  "graph_step sv n state =
     (case node_fn sv n state of
        Inl e \<Rightarrow> Inl e
      | Inr state' \<Rightarrow>
          if is_list (memory_indexes_to_update state')
          then Inr (state', successor n state')
          else Inl validation_error)"

text \<open>
  The services may answer differently at each call, so a run is given one \<open>services\<close>
  per turn: \<open>w k\<close> is what turn \<open>k\<close> of the run finds.

  \<open>graph_loop remaining w k n state\<close> is the rest of the stream from turn \<open>k\<close> on,
  when \<open>remaining\<close> turns are left under the recursion limit: the outputs, one per node
  run, and how the stream ends. It ends at \<^verbatim>\<open>END\<close>, or with the exception of a turn,
  or with \<^verbatim>\<open>GraphRecursionError\<close> (the first sentence of its message is kept) once
  the last turn allowed has put out its state. The library tests the limit before it
  looks for the next node, so a run whose last allowed turn leads to \<^verbatim>\<open>END\<close> ends with
  that error too.
\<close>

datatype run_end = Ended | Raised pyexc

definition recursion_limit :: nat where
  "recursion_limit = 25"

definition recursion_error :: pyexc where
  "recursion_error =
     PyExc GraphRecursionError ''Recursion limit of 25 reached without hitting a stop condition.''"

fun graph_loop ::
  "nat \<Rightarrow> (nat \<Rightarrow> services) \<Rightarrow> nat \<Rightarrow> node \<Rightarrow> State \<Rightarrow> (node \<times> State) list \<times> run_end"
where
  "graph_loop 0 w k n state = ([], Raised recursion_error)"
| "graph_loop (Suc remaining) w k n state =
     (case graph_step (w k) n state of
        Inl e \<Rightarrow> ([], Raised e)
      | Inr (state', t) \<Rightarrow>
          (case t of
             END \<Rightarrow> ([(n, state')], if remaining = 0 then Raised recursion_error else Ended)
           | Goto n' \<Rightarrow>
               (let r = graph_loop remaining w (Suc k) n' state'
                in ((n, state') # fst r, snd r))))"

text \<open>\<^verbatim>\<open>graph.stream(state)\<close>: the whole stream, from the entry point \<^verbatim>\<open>run_code\<close>.\<close>

definition graph_stream :: "(nat \<Rightarrow> services) \<Rightarrow> State \<Rightarrow> (node \<times> State) list \<times> run_end" where
  "graph_stream w state = graph_loop recursion_limit w 0 Run_code state"

section \<open>Main function\<close>

text \<open>
  The state that \<^verbatim>\<open>run_self_healing_code_system\<close> builds: the flag is false and every
  field with a default has it.
\<close>

definition initial_state :: "pyfunc \<Rightarrow> string \<Rightarrow> pyval list \<Rightarrow> State" where
  "initial_state f src args =
     \<lparr>function_ref = f, function_string = src, arguments = args, error = False,
      error_description = '''', new_function_string = '''', bug_report = '''',
      memories = [], memory_indexes_to_update = PList []\<rparr>"

text \<open>
  \<^verbatim>\<open>run_self_healing_code_system\<close> returns the last output of the stream; an exception
  of \<^verbatim>\<open>inspect.getsource\<close> or of the stream leaves it as it is, and with no output at
  all the variable \<^verbatim>\<open>last_state\<close> would be unbound.
\<close>

definition run_self_healing_code_system ::
  "(nat \<Rightarrow> services) \<Rightarrow> pyfunc \<Rightarrow> pyval list \<Rightarrow> pyexc + (node \<times> State)"
where
  "run_self_healing_code_system w f args =
     (case getsource f of
        Inl e \<Rightarrow> Inl e
      | Inr src \<Rightarrow>
          (let r = graph_stream w (initial_state f src args) in
           case snd r of
             Raised e \<Rightarrow> Inl e
           | Ended \<Rightarrow>
               (case fst r of
                  [] \<Rightarrow> Inl (PyExc UnboundLocalError ''last_state'')
                | output # outputs \<Rightarrow> Inr (last (output # outputs)))))"

section \<open>The sample target and sample services\<close>

text \<open>
  The function that the notebook heals, \<^verbatim>\<open>def divide_two_numbers(a, b): return a/b\<close>,
  on the argument lists the notebook passes: two integers (true division, with the
  quotient kept exact) and a string with an integer. Any other argument list is given
  a \<^verbatim>\<open>TypeError\<close> here.
\<close>

fun divide_call :: "pyval list \<Rightarrow> pyexc + pyval" where
  "divide_call [PInt a, PInt b] =
     (if b = 0 then Inl (PyExc ZeroDivisionError ''division by zero'')
      else Inr (PFloat (Finite (of_int a / of_int b))))"
| "divide_call [PStr a, PInt b] =
     Inl (PyExc TypeError
            (''unsupported operand type(s) for /: '' @ quoted ''str'' @ '' and ''
               @ quoted ''int''))"
| "divide_call args = Inl (PyExc TypeError ''unsupported operand type(s) for /'')"

definition divide_source :: string where
  "divide_source = ''def divide_two_numbers(a, b): return a/b''"

definition divide_two_numbers :: pyfunc where
  "divide_two_numbers =
     \<lparr>fname = ''divide_two_numbers'', getsource = Inr divide_source, call = divide_call\<rparr>"

definition divide_fixed_source :: string where
  "divide_fixed_source = ''def divide_two_numbers(a, b): return 'Error' if b == 0 else a/b''"

text \<open>
  What that text defines, on the same two shapes of argument list: it returns a message
  instead of dividing by zero.
\<close>

fun divide_fixed_call :: "pyval list \<Rightarrow> pyexc + pyval" where
  "divide_fixed_call [PInt a, PInt b] =
     (if b = 0 then Inr (PStr ''Error'')
      else Inr (PFloat (Finite (of_int a / of_int b))))"
| "divide_fixed_call [PStr a, PInt b] =
     (if b = 0 then Inr (PStr ''Error'')
      else Inl (PyExc TypeError
                  (''unsupported operand type(s) for /: '' @ quoted ''str'' @ '' and ''
                     @ quoted ''int'')))"
| "divide_fixed_call args = Inl (PyExc TypeError ''unsupported operand type(s) for /'')"

definition divide_fixed :: pyfunc where
  "divide_fixed =
     \<lparr>fname = ''divide_two_numbers'', getsource = Inr divide_fixed_source,
      call = divide_fixed_call\<rparr>"

text \<open>
  A second target, with another name: \<^verbatim>\<open>def halve(a): return 10/a\<close> on one integer,
  and a replacement for it.
\<close>

fun halve_call :: "pyval list \<Rightarrow> pyexc + pyval" where
  "halve_call [PInt a] =
     (if a = 0 then Inl (PyExc ZeroDivisionError ''division by zero'')
      else Inr (PFloat (Finite (10 / of_int a))))"
| "halve_call args = Inl (PyExc TypeError ''unsupported operand type(s) for /'')"

definition halve :: pyfunc where
  "halve = \<lparr>fname = ''halve'', getsource = Inr ''def halve(a): return 10/a'', call = halve_call\<rparr>"

definition halve_fixed_source :: string where
  "halve_fixed_source = ''def halve(a): return 'Error' if a == 0 else 10/a''"

fun halve_fixed_call :: "pyval list \<Rightarrow> pyexc + pyval" where
  "halve_fixed_call [PInt a] =
     (if a = 0 then Inr (PStr ''Error'')
      else Inr (PFloat (Finite (10 / of_int a))))"
| "halve_fixed_call args = Inl (PyExc TypeError ''unsupported operand type(s) for /'')"

definition halve_fixed :: pyfunc where
  "halve_fixed =
     \<lparr>fname = ''halve'', getsource = Inr halve_fixed_source, call = halve_fixed_call\<rparr>"

text \<open>
  \<^verbatim>\<open>json.loads\<close> on the texts that the sample services answer a memory search with;
  no other text is parsed in the sample runs, and \<^verbatim>\<open>JSONDecodeError\<close> stands for them.
\<close>

definition sample_json_loads :: "string \<Rightarrow> pyexc + pyval" where
  "sample_json_loads text =
     (if text = ''[]'' then Inr (PList [])
      else if text = ''[0]'' then Inr (PList [PInt 0])
      else if text = ''[1, 0]'' then Inr (PList [PInt 1, PInt 0])
      else if text = ''[-1]'' then Inr (PList [PInt (- 1)])
      else if text = ''[5]'' then Inr (PList [PInt 5])
      else if text = ''[0.5]'' then Inr (PList [PFloat (Finite (1 / 2))])
      else Inl (PyExc JSONDecodeError ''Expecting value''))"

text \<open>
  \<^verbatim>\<open>exec\<close> on the source texts above and on the empty text, which defines nothing;
  the only other text loaded in the sample runs is an English sentence, and
  \<^verbatim>\<open>SyntaxError\<close> stands for every other text.
\<close>

definition sample_exec :: "string \<Rightarrow> pyexc + (string \<rightharpoonup> pyfunc)" where
  "sample_exec code =
     (if code = '''' then Inr Map.empty
      else if code = divide_source then Inr [''divide_two_numbers'' \<mapsto> divide_two_numbers]
      else if code = divide_fixed_source then Inr [''divide_two_numbers'' \<mapsto> divide_fixed]
      else if code = halve_fixed_source then Inr [''halve'' \<mapsto> halve_fixed]
      else Inl (PyExc SyntaxError ''invalid syntax''))"

text \<open>
  A language model that answers the memory search with \<open>found\<close> and a request for a
  fix with \<open>fix\<close>.
\<close>

fun sample_llm :: "string \<Rightarrow> string \<Rightarrow> prompt \<Rightarrow> pyexc + string" where
  "sample_llm found fix (MemorySearchPrompt report mems) = Inr found"
| "sample_llm found fix (UpdateCodePrompt src descr) = Inr fix"
| "sample_llm found fix (BugReportPrompt src descr) = Inr ''Bug report''"
| "sample_llm found fix (MemoryGenerationPrompt report) = Inr ''# f ## error ### analysis''"
| "sample_llm found fix (MemoryModificationPrompt report mem) = Inr ''# f ## updated ### context''"

definition sample_services :: "string \<Rightarrow> string \<Rightarrow> services" where
  "sample_services found fix =
     \<lparr>llm = sample_llm found fix, json_loads = sample_json_loads, py_exec = sample_exec\<rparr>"

section \<open>Sample states and runs\<close>

text \<open>
  The state that the run on \<^verbatim>\<open>divide_two_numbers(10, 0)\<close> starts from, and the same run
  after the bug report, with the memories and the pending queue as given.
\<close>

definition failing_state :: State where
  "failing_state = initial_state divide_two_numbers divide_source [PInt 10, PInt 0]"

definition reported_state :: "pyval list \<Rightarrow> pyval \<Rightarrow> State" where
  "reported_state mems pending =
     failing_state\<lparr>error := True, error_description := ''division by zero'',
                   bug_report := ''Bug report'', memories := mems,
                   memory_indexes_to_update := pending\<rparr>"

definition two_memories :: "pyval list" where
  "two_memories = [PStr ''# f ## first ### context'', PStr ''# g ## second ### context'']"

text \<open>The start of a run that already has two memories.\<close>

definition remembering_state :: State where
  "remembering_state = failing_state\<lparr>memories := two_memories\<rparr>"

text \<open>The state that reaches \<open>fix_code\<close> with a working replacement proposed.\<close>

definition proposed_state :: State where
  "proposed_state =
     (reported_state [PStr ''# f ## error ### analysis''] (PList []))
       \<lparr>new_function_string := divide_fixed_source\<rparr>"

text \<open>The state after that replacement was installed.\<close>

definition healed_state :: State where
  "healed_state =
     failing_state\<lparr>function_ref := divide_fixed, error_description := ''division by zero'',
                   new_function_string := divide_fixed_source, bug_report := ''Bug report'',
                   memories := [PStr ''# f ## error ### analysis'']\<rparr>"

text \<open>The run on \<^verbatim>\<open>halve(0)\<close> when it reaches \<open>fix_code\<close> with a working replacement proposed.\<close>

definition halve_proposed_state :: State where
  "halve_proposed_state =
     (initial_state halve ''def halve(a): return 10/a'' [PInt 0])
       \<lparr>error := True, error_description := ''division by zero'',
        new_function_string := halve_fixed_source, bug_report := ''Bug report'',
        memories := [PStr ''# f ## error ### analysis'']\<rparr>"

text \<open>Services that answer the same way at every turn.\<close>

definition always :: "services \<Rightarrow> nat \<Rightarrow> services" where
  "always sv k = sv"

section \<open>Predicates of the statements\<close>

text \<open>The values that Python accepts as a list index.\<close>

fun is_index :: "pyval \<Rightarrow> bool" where
  "is_index (PInt i) = True"
| "is_index (PBool b) = True"
| "is_index v = False"

text \<open>
  In a sequence of outputs that follows the output \<open>prev\<close>, every output of
  \<open>memory_generation_node\<close> comes directly after an output of \<open>memory_search_node\<close>
  whose pending queue is empty.
\<close>

fun generation_guarded :: "(node \<times> State) option \<Rightarrow> (node \<times> State) list \<Rightarrow> bool" where
  "generation_guarded prev [] = True"
| "generation_guarded prev ((n, state) # outs) =
     ((n = Memory_generation_node \<longrightarrow>
        (case prev of
           None \<Rightarrow> False
         | Some (m, before) \<Rightarrow>
             m = Memory_search_node \<and> \<not> truthy (memory_indexes_to_update before))) \<and>
      generation_guarded (Some (n, state)) outs)"

section \<open>Evaluation of the sample runs\<close>

lemmas node_defs =
  graph_step_def run_code_def update_code_def fix_code_def bug_report_node_def
  memory_search_node_def memory_generation_node_def memory_modification_node_def
  error_router_def modification_router_def update_memory_def int_position_def
  out_of_range_def Let_def

lemma sources_distinct:
  "divide_fixed_source \<noteq> divide_source" "halve_fixed_source \<noteq> divide_source"
  "halve_fixed_source \<noteq> divide_fixed_source"
  "divide_source \<noteq> []" "divide_fixed_source \<noteq> []" "halve_fixed_source \<noteq> []"
  by (simp_all add: divide_source_def divide_fixed_source_def halve_fixed_source_def)

lemmas sample_defs =
  always_def sample_services_def sample_json_loads_def sample_exec_def
  divide_two_numbers_def divide_fixed_def sources_distinct
  failing_state_def reported_state_def two_memories_def
  remembering_state_def initial_state_def

section \<open>Positions in a list\<close>

lemma int_position_in_range:
  "0 \<le> i \<Longrightarrow> i < int n \<Longrightarrow> int_position n i = Inr (nat i)"
  by (simp add: int_position_def)

lemma int_position_negative:
  "- int n \<le> i \<Longrightarrow> i < 0 \<Longrightarrow> int_position n i = Inr (nat (int n + i))"
  by (simp add: int_position_def)

lemma int_position_outside:
  "i < - int n \<or> int n \<le> i \<Longrightarrow> int_position n i = Inl (out_of_range i)"
  by (auto simp add: int_position_def)

section \<open>The run-target node\<close>

text \<open>
  Claim C9. When the call of the stored function raises an exception that
  \<^verbatim>\<open>except Exception\<close> catches, \<open>run_code\<close> returns the state with the failure
  flag set and the failure description equal to \<^verbatim>\<open>str(e)\<close>; the argument list, the
  function reference and the memory store are the ones it was given.
\<close>

theorem run_code_failure_frame:
  assumes "call (function_ref state) (arguments state) = Inl e" and "is_Exception e"
  shows "run_code state = Inr (state\<lparr>error := True, error_description := exc_str e\<rparr>) \<and>
         error (state\<lparr>error := True, error_description := exc_str e\<rparr>) \<and>
         error_description (state\<lparr>error := True, error_description := exc_str e\<rparr>)
           = exc_str e \<and>
         arguments (state\<lparr>error := True, error_description := exc_str e\<rparr>)
           = arguments state \<and>
         function_ref (state\<lparr>error := True, error_description := exc_str e\<rparr>)
           = function_ref state \<and>
         memories (state\<lparr>error := True, error_description := exc_str e\<rparr>)
           = memories state"
  using assms by (simp add: run_code_def)

text \<open>The call \<^verbatim>\<open>divide_two_numbers(10, 0)\<close> raises \<^verbatim>\<open>ZeroDivisionError\<close>.\<close>

theorem run_code_failure_frame_witness:
  "call (function_ref failing_state) (arguments failing_state)
     = Inl (PyExc ZeroDivisionError ''division by zero'') \<and>
   is_Exception (PyExc ZeroDivisionError ''division by zero'') \<and>
   run_code failing_state
     = Inr (failing_state\<lparr>error := True, error_description := ''division by zero''\<rparr>)"
proof -
  have c: "call (function_ref failing_state) (arguments failing_state)
             = Inl (PyExc ZeroDivisionError ''division by zero'')"
    by (simp add: failing_state_def initial_state_def divide_two_numbers_def)
  have x: "is_Exception (PyExc ZeroDivisionError ''division by zero'')" by simp
  from run_code_failure_frame [OF c x] c x show ?thesis
    by (simp add: failing_state_def initial_state_def)
qed

text \<open>
  Claim C6 says that a successful call leaves the flag false and the description empty.
  \<open>run_code\<close> has no branch for the successful call, so it clears neither. In
  \<open>healed_state\<close>, the state of the notebook's run after the fix was installed, the
  call succeeds and the description of the earlier failure stays; in the same state with
  the flag set the call succeeds and the flag stays set.
\<close>

theorem run_code_success_keeps_markers:
  "call (function_ref healed_state) (arguments healed_state) = Inr (PStr ''Error'') \<and>
   run_code healed_state = Inr healed_state \<and>
   error_description healed_state = ''division by zero'' \<and>
   call (function_ref (healed_state\<lparr>error := True\<rparr>)) (arguments (healed_state\<lparr>error := True\<rparr>))
     = Inr (PStr ''Error'') \<and>
   run_code (healed_state\<lparr>error := True\<rparr>) = Inr (healed_state\<lparr>error := True\<rparr>) \<and>
   error (healed_state\<lparr>error := True\<rparr>)"
  by (simp add: run_code_def healed_state_def failing_state_def initial_state_def
        divide_fixed_def)

text \<open>
  Claim C6, amended. When the call of the stored function with the stored arguments
  succeeds, \<open>run_code\<close> returns the state it was given: flag, description and
  function are what they were before.
\<close>

theorem run_code_success_unchanged:
  assumes "call (function_ref state) (arguments state) = Inr result"
  shows "run_code state = Inr state"
  using assms by (simp add: run_code_def)

theorem run_code_success_unchanged_witness:
  "call (function_ref healed_state) (arguments healed_state) = Inr (PStr ''Error'') \<and>
   run_code healed_state = Inr healed_state"
proof -
  have c: "call (function_ref healed_state) (arguments healed_state) = Inr (PStr ''Error'')"
    by (simp add: healed_state_def failing_state_def initial_state_def divide_fixed_def)
  from run_code_success_unchanged [OF c] c show ?thesis by simp
qed

section \<open>The memory-update node\<close>

text \<open>
  Claim C7. With a pending queue whose front is an index \<open>i\<close> in \<open>[0, len(memories))\<close>,
  and a language model that answers, one call of \<open>memory_modification_node\<close> takes that
  one index off the queue and writes the answer at position \<open>i\<close>; the store keeps its
  length and every record at another position.
\<close>

theorem memory_modification_in_range:
  assumes queue: "memory_indexes_to_update state = PList (PInt i # rest)"
    and lower: "0 \<le> i" and upper: "i < int (length (memories state))"
    and reply: "llm sv (MemoryModificationPrompt (bug_report state) (memories state ! nat i))
                  = Inr response"
  shows "memory_modification_node sv state =
           Inr (state\<lparr>memory_indexes_to_update := PList rest,
                      memories := (memories state)[nat i := PStr response]\<rparr>) \<and>
         (memories state)[nat i := PStr response] ! nat i = PStr response \<and>
         length ((memories state)[nat i := PStr response]) = length (memories state) \<and>
         (\<forall>j. j \<noteq> nat i \<longrightarrow>
              (memories state)[nat i := PStr response] ! j = memories state ! j)"
proof -
  have pos: "list_position (length (memories state)) (PInt i) = Inr (nat i)"
    using lower upper by (simp add: int_position_in_range)
  have "memory_modification_node sv state =
          Inr (state\<lparr>memory_indexes_to_update := PList rest,
                     memories := (memories state)[nat i := PStr response]\<rparr>)"
    using queue pos reply by (simp add: memory_modification_node_def)
  moreover have "nat i < length (memories state)"
    using lower upper by simp
  ultimately show ?thesis by simp
qed

theorem memory_modification_in_range_witness:
  "memory_indexes_to_update (reported_state two_memories (PList [PInt 1, PInt 0]))
     = PList (PInt 1 # [PInt 0]) \<and>
   (0::int) \<le> 1 \<and>
   1 < int (length (memories (reported_state two_memories (PList [PInt 1, PInt 0])))) \<and>
   memory_modification_node (sample_services ''[1, 0]'' '''')
       (reported_state two_memories (PList [PInt 1, PInt 0]))
     = Inr (reported_state
              [PStr ''# f ## first ### context'', PStr ''# f ## updated ### context'']
              (PList [PInt 0]))"
proof -
  let ?s = "reported_state two_memories (PList [PInt 1, PInt 0])"
  let ?sv = "sample_services ''[1, 0]'' ''''"
  have q: "memory_indexes_to_update ?s = PList (PInt 1 # [PInt 0])"
    by (simp add: reported_state_def)
  have lo: "(0::int) \<le> 1" by simp
  have hi: "1 < int (length (memories ?s))"
    by (simp add: reported_state_def two_memories_def)
  have r: "llm ?sv (MemoryModificationPrompt (bug_report ?s) (memories ?s ! nat 1))
             = Inr ''# f ## updated ### context''"
    by (simp add: sample_services_def)
  from memory_modification_in_range [OF q lo hi r] q lo hi show ?thesis
    by (simp add: reported_state_def two_memories_def)
qed

text \<open>
  Claim C10. With a front index \<open>i\<close> in \<open>[-len(memories), -1]\<close> the node returns
  normally as well, and the record it replaces is the one at \<open>len(memories) + i\<close>.
\<close>

theorem memory_modification_negative:
  assumes queue: "memory_indexes_to_update state = PList (PInt i # rest)"
    and lower: "- int (length (memories state)) \<le> i" and upper: "i \<le> - 1"
    and reply: "llm sv (MemoryModificationPrompt (bug_report state)
                  (memories state ! nat (int (length (memories state)) + i))) = Inr response"
  shows "memory_modification_node sv state =
           Inr (state\<lparr>memory_indexes_to_update := PList rest,
                      memories := (memories state)
                        [nat (int (length (memories state)) + i) := PStr response]\<rparr>) \<and>
         nat (int (length (memories state)) + i) < length (memories state) \<and>
         (memories state)[nat (int (length (memories state)) + i) := PStr response]
           ! nat (int (length (memories state)) + i) = PStr response"
proof -
  let ?pos = "nat (int (length (memories state)) + i)"
  have pos: "list_position (length (memories state)) (PInt i) = Inr ?pos"
    using lower upper by (simp add: int_position_negative)
  have "memory_modification_node sv state =
          Inr (state\<lparr>memory_indexes_to_update := PList rest,
                     memories := (memories state)[?pos := PStr response]\<rparr>)"
    using queue pos reply by (simp add: memory_modification_node_def)
  moreover have "?pos < length (memories state)"
    using lower upper by linarith
  ultimately show ?thesis by simp
qed

theorem memory_modification_negative_witness:
  "memory_indexes_to_update (reported_state two_memories (PList [PInt (- 1)]))
     = PList (PInt (- 1) # []) \<and>
   - int (length (memories (reported_state two_memories (PList [PInt (- 1)])))) \<le> - 1 \<and>
   (- 1::int) \<le> - 1 \<and>
   memory_modification_node (sample_services ''[-1]'' '''')
       (reported_state two_memories (PList [PInt (- 1)]))
     = Inr (reported_state
              [PStr ''# f ## first ### context'', PStr ''# f ## updated ### context'']
              (PList []))"
proof -
  let ?s = "reported_state two_memories (PList [PInt (- 1)])"
  let ?sv = "sample_services ''[-1]'' ''''"
  have q: "memory_indexes_to_update ?s = PList (PInt (- 1) # [])"
    by (simp add: reported_state_def)
  have lo: "- int (length (memories ?s)) \<le> - 1"
    by (simp add: reported_state_def two_memories_def)
  have hi: "(- 1::int) \<le> - 1" by simp
  have r: "llm ?sv (MemoryModificationPrompt (bug_report ?s)
             (memories ?s ! nat (int (length (memories ?s)) + - 1)))
             = Inr ''# f ## updated ### context''"
    by (simp add: sample_services_def)
  from memory_modification_negative [OF q lo hi r] q lo hi show ?thesis
    by (simp add: reported_state_def two_memories_def)
qed

section \<open>The stream under the recursion limit\<close>

lemma graph_step_Inr:
  "graph_step sv n state = Inr (state', t) \<Longrightarrow>
   node_fn sv n state = Inr state' \<and> t = successor n state' \<and>
   is_list (memory_indexes_to_update state')"
  by (auto simp add: graph_step_def split: sum.splits if_splits)

lemma graph_loop_Raised:
  "graph_step (w k) n state = Inl e \<Longrightarrow>
   graph_loop (Suc remaining) w k n state = ([], Raised e)"
  by simp

lemma graph_loop_END:
  "graph_step (w k) n state = Inr (state', END) \<Longrightarrow>
   graph_loop (Suc (Suc remaining)) w k n state = ([(n, state')], Ended)"
  by simp

lemma graph_loop_Goto:
  "graph_step (w k) n state = Inr (state', Goto n') \<Longrightarrow>
   graph_loop (Suc remaining) w k n state =
     ((n, state') # fst (graph_loop remaining w (Suc k) n' state'),
      snd (graph_loop remaining w (Suc k) n' state'))"
  by (simp add: Let_def)




section \<open>What each node leaves alone\<close>

lemma node_fn_frame:
  assumes "n \<noteq> Run_code" and "n \<noteq> Fix_code" and "node_fn sv n state = Inr state'"
  shows "function_ref state' = function_ref state \<and> arguments state' = arguments state \<and>
         error state' = error state"
  using assms
  by (cases n)
     (auto simp add: update_code_def bug_report_node_def memory_search_node_def
        memory_generation_node_def memory_modification_node_def
        split: sum.splits prod.splits)

lemma run_code_result:
  assumes "run_code state = Inr state'"
  shows "function_ref state' = function_ref state \<and> arguments state' = arguments state \<and>
         (error state' \<longleftrightarrow> error state \<or> isl (call (function_ref state) (arguments state)))"
  using assms by (auto simp add: run_code_def split: sum.splits if_splits)


lemma successor_not_Run_code:
  "n \<noteq> Fix_code \<Longrightarrow> successor n state \<noteq> Goto Run_code"
  by (cases n) (simp_all add: error_router_def modification_router_def update_memory_def)

section \<open>A first call that succeeds\<close>

text \<open>
  Claim C5. When the target succeeds on its first call, the run started by
  \<open>run_self_healing_code_system\<close> ends after one output, that of \<open>run_code\<close>; the
  flag is false, and the bug report and the pending fix are still empty.
\<close>

theorem healthy_first_run:
  assumes src: "getsource f = Inr src" and ok: "call f args = Inr result"
  shows "graph_stream w (initial_state f src args)
           = ([(Run_code, initial_state f src args)], Ended) \<and>
         run_self_healing_code_system w f args = Inr (Run_code, initial_state f src args) \<and>
         \<not> error (initial_state f src args) \<and>
         bug_report (initial_state f src args) = '''' \<and>
         new_function_string (initial_state f src args) = ''''"
proof -
  let ?s = "initial_state f src args"
  have "graph_step (w 0) Run_code ?s = Inr (?s, END)"
    using ok by (simp add: graph_step_def run_code_def error_router_def initial_state_def)
  then have "graph_loop (Suc (Suc 23)) w 0 Run_code ?s = ([(Run_code, ?s)], Ended)"
    by (rule graph_loop_END)
  then have "graph_stream w ?s = ([(Run_code, ?s)], Ended)"
    by (simp add: graph_stream_def recursion_limit_def)
  then show ?thesis
    using src by (simp add: run_self_healing_code_system_def initial_state_def)
qed

theorem healthy_first_run_witness:
  "getsource divide_two_numbers = Inr divide_source \<and>
   call divide_two_numbers [PInt 10, PInt 2] = Inr (PFloat (Finite 5)) \<and>
   run_self_healing_code_system (always (sample_services ''[]'' divide_fixed_source))
     divide_two_numbers [PInt 10, PInt 2]
     = Inr (Run_code, initial_state divide_two_numbers divide_source [PInt 10, PInt 2]) \<and>
   graph_stream (always (sample_services ''[]'' divide_fixed_source))
     (initial_state divide_two_numbers divide_source [PInt 10, PInt 2])
     = ([(Run_code, initial_state divide_two_numbers divide_source [PInt 10, PInt 2])], Ended)"
proof -
  have s: "getsource divide_two_numbers = Inr divide_source"
    by (simp add: divide_two_numbers_def)
  have c: "call divide_two_numbers [PInt 10, PInt 2] = Inr (PFloat (Finite 5))"
    by (simp add: divide_two_numbers_def)
  from healthy_first_run [OF s c] s c show ?thesis by simp
qed

section \<open>The failure flag\<close>

text \<open>
  Claim C3 says that only a successful new call by \<open>run_code\<close> resets the flag, and
  \<open>fix_code\<close> never. In \<open>proposed_state\<close> the flag is set and the last call raised;
  \<open>fix_code\<close> loads the replacement and clears the flag, with no call made.
\<close>

theorem fix_code_resets_flag:
  "error proposed_state \<and>
   isl (call (function_ref proposed_state) (arguments proposed_state)) \<and>
   fix_code (sample_services ''[]'' divide_fixed_source) proposed_state
     = Inr (proposed_state\<lparr>function_ref := divide_fixed, error := False\<rparr>) \<and>
   \<not> error (proposed_state\<lparr>function_ref := divide_fixed, error := False\<rparr>)"
  by (simp add: proposed_state_def fix_code_def sample_defs)

text \<open>
  Claim C3, amended. \<open>run_code\<close> sets the flag when its call raises and leaves the
  flag as it was when the call returns, so it never clears it; a node other than
  \<open>fix_code\<close> leaves a set flag set; \<open>fix_code\<close> clears the flag exactly when loading
  and lookup succeed, with no call made, and leaves it as it was when they fail. So the
  flag need not tell how the last call ended: it is clear after a \<open>fix_code\<close> that
  installed a replacement, and it stays set through a \<open>run_code\<close> whose call returns.
\<close>

theorem failure_flag_discipline:
  "(n \<noteq> Fix_code \<longrightarrow> node_fn sv n state = Inr state' \<longrightarrow> error state \<longrightarrow> error state') \<and>
   (run_code state = Inr state1 \<longrightarrow>
      (error state1 \<longleftrightarrow> error state \<or> isl (call (function_ref state) (arguments state)))) \<and>
   (fix_code sv state = Inr state2 \<longrightarrow>
      (error state2 \<longleftrightarrow>
         error state \<and>
         \<not> (\<exists>ns f. py_exec sv (new_function_string state) = Inr ns \<and>
                  ns ''divide_two_numbers'' = Some f)))"
proof -
  have others: "error state'"
    if "n \<noteq> Fix_code" and "node_fn sv n state = Inr state'" and "error state"
  proof (cases "n = Run_code")
    case True
    with that run_code_result [of state state'] show ?thesis by simp
  next
    case False
    from node_fn_frame [OF False that(1) that(2)] that(3) show ?thesis by simp
  qed
  have run: "error state1 \<longleftrightarrow> error state \<or> isl (call (function_ref state) (arguments state))"
    if "run_code state = Inr state1"
    using run_code_result [OF that] by simp
  have fixed: "error state2 \<longleftrightarrow>
               error state \<and>
               \<not> (\<exists>ns f. py_exec sv (new_function_string state) = Inr ns \<and>
                        ns ''divide_two_numbers'' = Some f)"
    if "fix_code sv state = Inr state2"
    using that by (auto simp add: fix_code_def split: sum.splits if_splits option.splits)
  from others run fixed show ?thesis by blast
qed

theorem failure_flag_discipline_witness:
  "node_fn (sample_services ''[0]'' divide_fixed_source) Bug_report_node
     (reported_state two_memories (PList [])\<lparr>bug_report := ''''\<rparr>)
     = Inr (reported_state two_memories (PList [])) \<and>
   error (reported_state two_memories (PList [])\<lparr>bug_report := ''''\<rparr>) \<and>
   error (reported_state two_memories (PList [])) \<and>
   run_code failing_state
     = Inr (failing_state\<lparr>error := True, error_description := ''division by zero''\<rparr>) \<and>
   isl (call (function_ref failing_state) (arguments failing_state)) \<and>
   error (failing_state\<lparr>error := True, error_description := ''division by zero''\<rparr>) \<and>
   run_code (healed_state\<lparr>error := True\<rparr>) = Inr (healed_state\<lparr>error := True\<rparr>) \<and>
   \<not> isl (call (function_ref (healed_state\<lparr>error := True\<rparr>))
             (arguments (healed_state\<lparr>error := True\<rparr>))) \<and>
   error (healed_state\<lparr>error := True\<rparr>) \<and>
   fix_code (sample_services ''[]'' divide_fixed_source) proposed_state
     = Inr (proposed_state\<lparr>function_ref := divide_fixed, error := False\<rparr>) \<and>
   fix_code (sample_services ''[]'' ''I cannot fix this function.'')
     (proposed_state\<lparr>new_function_string := ''I cannot fix this function.''\<rparr>)
     = Inr (proposed_state\<lparr>new_function_string := ''I cannot fix this function.''\<rparr>) \<and>
   error (proposed_state\<lparr>new_function_string := ''I cannot fix this function.''\<rparr>)"
proof -
  let ?sv = "sample_services ''[]'' divide_fixed_source"
  let ?failed = "failing_state\<lparr>error := True, error_description := ''division by zero''\<rparr>"
  let ?stale = "healed_state\<lparr>error := True\<rparr>"
  let ?refused = "proposed_state\<lparr>new_function_string := ''I cannot fix this function.''\<rparr>"
  have b: "node_fn (sample_services ''[0]'' divide_fixed_source) Bug_report_node
             (reported_state two_memories (PList [])\<lparr>bug_report := ''''\<rparr>)
             = Inr (reported_state two_memories (PList []))"
    by (simp add: bug_report_node_def sample_services_def reported_state_def)
  have r: "run_code failing_state = Inr ?failed"
    by (simp add: run_code_def sample_defs)
  have s: "run_code ?stale = Inr ?stale"
    by (simp add: run_code_def healed_state_def sample_defs)
  have x: "fix_code ?sv proposed_state
             = Inr (proposed_state\<lparr>function_ref := divide_fixed, error := False\<rparr>)"
    by (simp add: proposed_state_def fix_code_def sample_defs)
  have y: "fix_code (sample_services ''[]'' ''I cannot fix this function.'') ?refused
             = Inr ?refused"
    by (simp add: proposed_state_def fix_code_def sample_defs divide_source_def
          divide_fixed_source_def halve_fixed_source_def)
  from failure_flag_discipline
         [of Bug_report_node "sample_services ''[0]'' divide_fixed_source"
             "reported_state two_memories (PList [])\<lparr>bug_report := ''''\<rparr>"
             "reported_state two_memories (PList [])"]
       failure_flag_discipline [of Run_code ?sv failing_state ?failed ?failed]
       failure_flag_discipline
         [of Run_code ?sv ?stale ?stale ?stale]
       failure_flag_discipline
         [of Run_code "sample_services ''[]'' ''I cannot fix this function.''" ?refused
             ?refused ?refused ?refused]
       b r s x y
  show ?thesis
    by (simp add: reported_state_def failing_state_def initial_state_def divide_two_numbers_def
          healed_state_def divide_fixed_def proposed_state_def)
qed

section \<open>No counter of fix attempts\<close>








section \<open>When a memory is generated\<close>

lemma successor_generation:
  "successor n state = Goto Memory_generation_node \<Longrightarrow>
   n = Memory_search_node \<and> \<not> truthy (memory_indexes_to_update state)"
  by (cases n)
     (simp_all add: error_router_def modification_router_def update_memory_def
        split: if_splits)

lemma generation_guarded_loop:
  assumes "n = Memory_generation_node \<longrightarrow>
             (case prev of
                None \<Rightarrow> False
              | Some (m, before) \<Rightarrow>
                  m = Memory_search_node \<and> \<not> truthy (memory_indexes_to_update before))"
  shows "generation_guarded prev (fst (graph_loop remaining w k n state))"
  using assms
proof (induction remaining arbitrary: k n state prev)
  case 0
  then show ?case by simp
next
  case (Suc remaining)
  show ?case
  proof (cases "graph_step (w k) n state")
    case (Inl e)
    then show ?thesis by simp
  next
    case (Inr p)
    obtain s1 t where p: "p = (s1, t)" by (cases p)
    from Inr p graph_step_Inr [of "w k" n state s1 t]
    have t: "t = successor n s1" by simp
    show ?thesis
    proof (cases t)
      case END
      with Inr p Suc.prems show ?thesis by simp
    next
      case (Goto n')
      have "n' = Memory_generation_node \<longrightarrow>
              (case Some (n, s1) of
                 None \<Rightarrow> False
               | Some (m, before) \<Rightarrow>
                   m = Memory_search_node \<and> \<not> truthy (memory_indexes_to_update before))"
        using Goto t successor_generation [of n s1] by simp
      from Suc.IH [OF this] Inr p Goto Suc.prems show ?thesis
        by (simp add: Let_def)
    qed
  qed
qed

text \<open>
  Claim C8. The only edge into \<open>memory_generation_node\<close> comes from
  \<open>memory_search_node\<close> and is taken when the pending queue is empty (falsy); with a
  non-empty queue both routers choose \<open>memory_modification_node\<close>. So in the outputs
  of any run each output of \<open>memory_generation_node\<close>, which appends one record,
  directly follows an output of \<open>memory_search_node\<close> with an empty queue.
\<close>

theorem generation_only_on_empty_queue:
  "(successor n state = Goto Memory_generation_node \<longrightarrow>
      n = Memory_search_node \<and> \<not> truthy (memory_indexes_to_update state)) \<and>
   (truthy (memory_indexes_to_update state) \<longrightarrow>
      modification_router state = Goto Memory_modification_node \<and>
      update_memory state = Goto Memory_modification_node) \<and>
   (memory_indexes_to_update state = PList idxs \<longrightarrow>
      (truthy (memory_indexes_to_update state) \<longleftrightarrow> idxs \<noteq> [])) \<and>
   (llm sv (MemoryGenerationPrompt (bug_report state)) = Inr response \<longrightarrow>
      memory_generation_node sv state
        = Inr (state\<lparr>memories := memories state @ [PStr response]\<rparr>)) \<and>
   generation_guarded None (fst (graph_loop remaining w 0 Run_code state0)) \<and>
   generation_guarded None (fst (graph_stream w state0))"
proof -
  have "generation_guarded None (fst (graph_loop r w 0 Run_code state0))" for r
    by (rule generation_guarded_loop) simp
  then have "generation_guarded None (fst (graph_loop remaining w 0 Run_code state0))"
    and "generation_guarded None (fst (graph_stream w state0))"
    by (simp_all add: graph_stream_def)
  then show ?thesis
    using successor_generation [of n state]
    by (auto simp add: modification_router_def update_memory_def memory_generation_node_def)
qed

lemma update_run:
  "graph_stream (always (sample_services ''[0]'' divide_fixed_source)) remembering_state
   = ([(Run_code, reported_state two_memories (PList [])\<lparr>bug_report := ''''\<rparr>),
       (Bug_report_node, reported_state two_memories (PList [])),
       (Memory_search_node, reported_state two_memories (PList [PInt 0])),
       (Memory_modification_node,
          reported_state [PStr ''# f ## updated ### context'', PStr ''# g ## second ### context'']
            (PList [])),
       (Update_code,
          (reported_state [PStr ''# f ## updated ### context'', PStr ''# g ## second ### context'']
            (PList []))\<lparr>new_function_string := divide_fixed_source\<rparr>),
       (Fix_code,
          (reported_state [PStr ''# f ## updated ### context'', PStr ''# g ## second ### context'']
            (PList []))\<lparr>new_function_string := divide_fixed_source,
                         function_ref := divide_fixed, error := False\<rparr>),
       (Run_code,
          (reported_state [PStr ''# f ## updated ### context'', PStr ''# g ## second ### context'']
            (PList []))\<lparr>new_function_string := divide_fixed_source,
                         function_ref := divide_fixed, error := False\<rparr>)],
      Ended)"
  by (simp add: graph_stream_def recursion_limit_def eval_nat_numeral node_defs sample_defs)

theorem generation_only_on_empty_queue_witness:
  "truthy (memory_indexes_to_update (reported_state two_memories (PList [PInt 0]))) \<and>
   modification_router (reported_state two_memories (PList [PInt 0]))
     = Goto Memory_modification_node \<and>
   update_memory (reported_state two_memories (PList [PInt 0]))
     = Goto Memory_modification_node \<and>
   successor Memory_search_node (reported_state two_memories (PList []))
     = Goto Memory_generation_node \<and>
   \<not> truthy (memory_indexes_to_update (reported_state two_memories (PList []))) \<and>
   map fst (fst (graph_stream (always (sample_services ''[0]'' divide_fixed_source))
                   remembering_state))
     = [Run_code, Bug_report_node, Memory_search_node, Memory_modification_node, Update_code,
        Fix_code, Run_code] \<and>
   generation_guarded None
     (fst (graph_stream (always (sample_services ''[0]'' divide_fixed_source))
             remembering_state))"
proof -
  have t: "truthy (memory_indexes_to_update (reported_state two_memories (PList [PInt 0])))"
    by (simp add: reported_state_def)
  have g: "successor Memory_search_node (reported_state two_memories (PList []))
             = Goto Memory_generation_node"
    by (simp add: modification_router_def reported_state_def)
  from generation_only_on_empty_queue
         [of Memory_search_node "reported_state two_memories (PList [])"]
       generation_only_on_empty_queue
         [of Run_code "reported_state two_memories (PList [PInt 0])" "[PInt 0]"
             "sample_services ''[0]'' divide_fixed_source" "''''" 7
             "always (sample_services ''[0]'' divide_fixed_source)" remembering_state]
       t g
  show ?thesis by (simp add: update_run)
qed

section \<open>The indices found by the memory search\<close>

text \<open>
  Claim C1 says that an index outside \<open>[0, len(memories))\<close> empties the queue and sends
  the run to \<open>memory_generation_node\<close>, with no exception. With no memories and the
  answer \<^verbatim>\<open>[5]\<close> the queue is stored as it is, the router chooses
  \<open>memory_modification_node\<close>, and its \<^verbatim>\<open>IndexError\<close> ends the run.
\<close>

theorem unvalidated_index_raises:
  "memory_search_node (sample_services ''[5]'' '''') (reported_state [] (PList []))
     = Inr (reported_state [] (PList [PInt 5])) \<and>
   modification_router (reported_state [] (PList [PInt 5])) = Goto Memory_modification_node \<and>
   memory_modification_node (sample_services ''[5]'' '''') (reported_state [] (PList [PInt 5]))
     = Inl (PyExc IndexError ''list index out of range'') \<and>
   graph_stream (always (sample_services ''[5]'' '''')) failing_state
     = ([(Run_code, reported_state [] (PList [])\<lparr>bug_report := ''''\<rparr>),
         (Bug_report_node, reported_state [] (PList [])),
         (Memory_search_node, reported_state [] (PList [PInt 5]))],
        Raised (PyExc IndexError ''list index out of range'')) \<and>
   run_self_healing_code_system (always (sample_services ''[5]'' ''''))
     divide_two_numbers [PInt 10, PInt 0]
     = Inl (PyExc IndexError ''list index out of range'')"
proof -
  let ?w = "always (sample_services ''[5]'' '''')"
  have stream: "graph_stream ?w failing_state
          = ([(Run_code, reported_state [] (PList [])\<lparr>bug_report := ''''\<rparr>),
              (Bug_report_node, reported_state [] (PList [])),
              (Memory_search_node, reported_state [] (PList [PInt 5]))],
             Raised (PyExc IndexError ''list index out of range''))"
    by (simp add: graph_stream_def recursion_limit_def eval_nat_numeral node_defs sample_defs)
  then have "run_self_healing_code_system ?w divide_two_numbers [PInt 10, PInt 0]
               = Inl (PyExc IndexError ''list index out of range'')"
    by (simp add: run_self_healing_code_system_def divide_two_numbers_def failing_state_def
          Let_def)
  with stream show ?thesis
    by (simp add: node_defs sample_defs)
qed

text \<open>
  Claim C1, amended. \<open>memory_search_node\<close> stores the list it obtains as the pending
  queue, unchecked. The run goes to \<open>memory_generation_node\<close> only when that list is
  empty; otherwise it goes to \<open>memory_modification_node\<close>, and when the front of the
  list is an integer outside \<open>[-len(memories), len(memories))\<close>, or is neither an
  integer nor a boolean, the exception of that node (\<^verbatim>\<open>IndexError\<close>, \<^verbatim>\<open>TypeError\<close>)
  ends the run.
\<close>

theorem search_result_unvalidated:
  assumes reply: "llm sv (MemorySearchPrompt (bug_report state) (memories state)) = Inr response"
    and parsed: "json_loads sv response = Inr (PList idxs)"
  shows "memory_search_node sv state = Inr (state\<lparr>memory_indexes_to_update := PList idxs\<rparr>) \<and>
         (idxs = [] \<longrightarrow>
            successor Memory_search_node (state\<lparr>memory_indexes_to_update := PList idxs\<rparr>)
              = Goto Memory_generation_node) \<and>
         (idxs \<noteq> [] \<longrightarrow>
            successor Memory_search_node (state\<lparr>memory_indexes_to_update := PList idxs\<rparr>)
              = Goto Memory_modification_node) \<and>
         (\<forall>i rest. idxs = PInt i # rest \<longrightarrow>
            (i < - int (length (memories state)) \<or> int (length (memories state)) \<le> i) \<longrightarrow>
            graph_loop (Suc remaining) w k Memory_modification_node
              (state\<lparr>memory_indexes_to_update := PList idxs\<rparr>)
              = ([], Raised (out_of_range i))) \<and>
         (\<forall>v rest. idxs = v # rest \<longrightarrow> \<not> is_index v \<longrightarrow>
            graph_loop (Suc remaining) w k Memory_modification_node
              (state\<lparr>memory_indexes_to_update := PList idxs\<rparr>)
              = ([], Raised (PyExc TypeError
                              (''list indices must be integers or slices, not '' @ type_name v))))"
proof -
  let ?s = "state\<lparr>memory_indexes_to_update := PList idxs\<rparr>"
  have search: "memory_search_node sv state = Inr ?s"
    using reply parsed by (simp add: memory_search_node_def)
  have outside: "graph_loop (Suc remaining) w k Memory_modification_node ?s
                   = ([], Raised (out_of_range i))"
    if "idxs = PInt i # rest"
      and "i < - int (length (memories state)) \<or> int (length (memories state)) \<le> i"
    for i rest
  proof (rule graph_loop_Raised)
    from that show "graph_step (w k) Memory_modification_node ?s = Inl (out_of_range i)"
      by (simp add: graph_step_def memory_modification_node_def int_position_outside)
  qed
  have other: "graph_loop (Suc remaining) w k Memory_modification_node ?s
                 = ([], Raised (PyExc TypeError
                     (''list indices must be integers or slices, not '' @ type_name v)))"
    if "idxs = v # rest" and "\<not> is_index v" for v rest
  proof (rule graph_loop_Raised)
    from that show "graph_step (w k) Memory_modification_node ?s
                      = Inl (PyExc TypeError
                             (''list indices must be integers or slices, not '' @ type_name v))"
      by (cases v) (simp_all add: graph_step_def memory_modification_node_def)
  qed
  have "idxs = [] \<longrightarrow> successor Memory_search_node ?s = Goto Memory_generation_node"
    and "idxs \<noteq> [] \<longrightarrow> successor Memory_search_node ?s = Goto Memory_modification_node"
    by (simp_all add: modification_router_def)
  with search outside other show ?thesis by blast
qed

theorem search_result_unvalidated_witness:
  "llm (sample_services ''[0.5]'' '''')
     (MemorySearchPrompt (bug_report (reported_state two_memories (PList [])))
        (memories (reported_state two_memories (PList [])))) = Inr ''[0.5]'' \<and>
   json_loads (sample_services ''[0.5]'' '''') ''[0.5]'' = Inr (PList [PFloat (Finite (1 / 2))]) \<and>
   \<not> is_index (PFloat (Finite (1 / 2))) \<and>
   memory_search_node (sample_services ''[0.5]'' '''') (reported_state two_memories (PList []))
     = Inr (reported_state two_memories (PList [PFloat (Finite (1 / 2))])) \<and>
   successor Memory_search_node (reported_state two_memories (PList [PFloat (Finite (1 / 2))]))
     = Goto Memory_modification_node \<and>
   graph_loop (Suc 21) (always (sample_services ''[0.5]'' '''')) 3 Memory_modification_node
     (reported_state two_memories (PList [PFloat (Finite (1 / 2))]))
     = ([], Raised (PyExc TypeError ''list indices must be integers or slices, not float''))"
proof -
  let ?sv = "sample_services ''[0.5]'' ''''"
  let ?s = "reported_state two_memories (PList [])"
  have r: "llm ?sv (MemorySearchPrompt (bug_report ?s) (memories ?s)) = Inr ''[0.5]''"
    by (simp add: sample_services_def)
  have p: "json_loads ?sv ''[0.5]'' = Inr (PList [PFloat (Finite (1 / 2))])"
    by (simp add: sample_services_def sample_json_loads_def)
  have e: "?s\<lparr>memory_indexes_to_update := PList [PFloat (Finite (1 / 2))]\<rparr>
             = reported_state two_memories (PList [PFloat (Finite (1 / 2))])"
    by (simp add: reported_state_def)
  from search_result_unvalidated [OF r p, of 21 "always ?sv" 3] r p show ?thesis
    by (simp add: e)
qed

section \<open>The name that \<open>fix_code\<close> looks up\<close>

text \<open>
  Claim C4 has \<open>fix_code\<close> take from the namespace the symbol named like the original
  function. The lookup uses the literal \<^verbatim>\<open>'divide_two_numbers'\<close>: for the target
  \<^verbatim>\<open>halve\<close>, whose proposed text loads and defines \<^verbatim>\<open>halve\<close>, the lookup fails
  and the function of the state stays the failing one.
\<close>

theorem fix_code_ignores_operation_name:
  "fname (function_ref halve_proposed_state) = ''halve'' \<and>
   isl (call (function_ref halve_proposed_state) (arguments halve_proposed_state)) \<and>
   (case py_exec (sample_services ''[]'' halve_fixed_source)
           (new_function_string halve_proposed_state) of
      Inl e \<Rightarrow> False
    | Inr namespace \<Rightarrow>
        namespace (fname (function_ref halve_proposed_state)) = Some halve_fixed \<and>
        namespace ''divide_two_numbers'' = None) \<and>
   fix_code (sample_services ''[]'' halve_fixed_source) halve_proposed_state
     = Inr halve_proposed_state \<and>
   function_ref halve_proposed_state = halve"
  by (simp add: halve_proposed_state_def fix_code_def halve_def sample_defs)

end
